theory Spec2Isabelle
  imports Complex_Main "HOL-Library.AList"
begin

section \<open>Python values, dictionaries and exceptions\<close>

text \<open>
  The tool \<open>manage_prefabs\<close> (Server/src/services/tools/manage_prefabs.py) handles
  dynamically typed values: its arguments, the \<open>params\<close> dictionary it sends and the
  reply it gets back (\<open>dict[str, Any]\<close>). A dictionary is an association list in
  insertion order with string keys, as a JSON object has. Finite floats are rationals.
\<close>

datatype pyval =
    PNone
  | PBool bool
  | PInt int
  | PFloat rat
  | PStr string
  | PList "pyval list"
  | PDict "(string \<times> pyval) list"

type_synonym pydict = "(string \<times> pyval) list"

text \<open>Python's truth value of an object, as \<open>if x:\<close> and \<open>x and y\<close> test it.\<close>

fun truthy :: "pyval \<Rightarrow> bool" where
  "truthy PNone = False"
| "truthy (PBool b) = b"
| "truthy (PInt i) = (i \<noteq> 0)"
| "truthy (PFloat x) = (x \<noteq> 0)"
| "truthy (PStr s) = (s \<noteq> [])"
| "truthy (PList xs) = (xs \<noteq> [])"
| "truthy (PDict d) = (d \<noteq> [])"

text \<open>\<open>isinstance(x, dict)\<close>.\<close>

fun isinstance_dict :: "pyval \<Rightarrow> bool" where
  "isinstance_dict (PDict d) = True"
| "isinstance_dict x = False"

text \<open>\<open>d.get(k, default)\<close>; \<open>d.get(k)\<close> is \<open>dict_get d k PNone\<close>.\<close>

definition dict_get :: "pydict \<Rightarrow> string \<Rightarrow> pyval \<Rightarrow> pyval" where
  "dict_get d k dflt = (case map_of d k of None \<Rightarrow> dflt | Some v \<Rightarrow> v)"

text \<open>
  The statement \<open>if c: params[k] = v\<close>. Assignment to a key replaces the value in place
  when the key is there and appends the pair otherwise.
\<close>

definition set_if :: "bool \<Rightarrow> string \<Rightarrow> pyval \<Rightarrow> pydict \<Rightarrow> pydict" where
  "set_if c k v params = (if c then AList.update k v params else params)"

text \<open>
  A raised exception, with the text \<open>str(exc)\<close> gives. \<open>except Exception\<close> catches the
  first kind only: \<open>asyncio.CancelledError\<close>, \<open>KeyboardInterrupt\<close> and \<open>SystemExit\<close>
  derive from \<open>BaseException\<close> alone.
\<close>

datatype pyexc = PyException string | PyBaseException string

definition bind_exc :: "pyexc + 'a \<Rightarrow> ('a \<Rightarrow> pyexc + 'b) \<Rightarrow> pyexc + 'b" where
  "bind_exc m f = (case m of Inl exc \<Rightarrow> Inl exc | Inr v \<Rightarrow> f v)"

section \<open>The collaborators of the tool\<close>

text \<open>
  \<open>manage_prefabs\<close> imports \<open>get_unity_instance_from_context\<close>,
  \<open>send_with_unity_instance\<close> (called with \<open>async_send_command_with_retry\<close>),
  \<open>coerce_bool\<close> and \<open>coerce_int\<close> from other modules; they and Python's built-in
  \<open>str\<close> are parameters of the model. Each may raise. The dispatcher also reports how
  many network sends it made, the only network traffic of a call.
\<close>

record ('ctx, 'inst) services =
  get_unity_instance_from_context :: "'ctx \<Rightarrow> pyexc + 'inst"
  send_with_unity_instance :: "'inst \<Rightarrow> string \<Rightarrow> pydict \<Rightarrow> nat \<times> (pyexc + pyval)"
  coerce_bool :: "pyval \<Rightarrow> pyexc + pyval"
  coerce_int :: "pyval \<Rightarrow> pyval \<Rightarrow> pyexc + pyval"
  py_str :: "pyval \<Rightarrow> string"

text \<open>The arguments of one call; an argument left out has its default \<open>None\<close>.\<close>

record prefab_args =
  action :: pyval
  prefab_path :: pyval
  mode :: pyval
  save_before_close :: pyval
  target :: pyval
  allow_overwrite :: pyval
  search_inactive :: pyval
  parent :: pyval
  page_size :: pyval
  cursor :: pyval
  include_transform :: pyval

text \<open>
  What a call did: the network sends made, the calls of \<open>send_with_unity_instance\<close>
  (instance, command name, params), and how it ended: \<open>Inr v\<close> when it returned \<open>v\<close>,
  \<open>Inl exc\<close> when \<open>exc\<close> was raised to the caller.
\<close>

record 'inst call_outcome =
  sends :: nat
  dispatched :: "('inst \<times> string \<times> pydict) list"
  result :: "pyexc + pyval"

section \<open>manage_prefabs\<close>

text \<open>Lines 49 to 76: the params dictionary, built key by key in the source's order.\<close>

definition build_params :: "('ctx, 'inst) services \<Rightarrow> prefab_args \<Rightarrow> pyexc + pydict" where
  "build_params env a =
    (let params = [(''action'', action a)];
         params = set_if (truthy (prefab_path a)) ''prefabPath'' (prefab_path a) params;
         params = set_if (truthy (mode a)) ''mode'' (mode a) params
     in bind_exc (coerce_bool env (save_before_close a)) (\<lambda>save_before_close_val.
    (let params = set_if (save_before_close_val \<noteq> PNone) ''saveBeforeClose'' save_before_close_val params;
         params = set_if (truthy (target a)) ''target'' (target a) params
     in bind_exc (coerce_bool env (allow_overwrite a)) (\<lambda>allow_overwrite_val.
    (let params = set_if (allow_overwrite_val \<noteq> PNone) ''allowOverwrite'' allow_overwrite_val params
     in bind_exc (coerce_bool env (search_inactive a)) (\<lambda>search_inactive_val.
    (let params = set_if (search_inactive_val \<noteq> PNone) ''searchInactive'' search_inactive_val params;
         params = set_if (truthy (parent a)) ''parent'' (parent a) params
     in bind_exc (coerce_int env (page_size a) PNone) (\<lambda>coerced_page_size.
    (let params = set_if (coerced_page_size \<noteq> PNone) ''pageSize'' coerced_page_size params
     in bind_exc (coerce_int env (cursor a) PNone) (\<lambda>coerced_cursor.
    (let params = set_if (coerced_cursor \<noteq> PNone) ''cursor'' coerced_cursor params
     in bind_exc (coerce_bool env (include_transform a)) (\<lambda>include_transform_val.
    (let params = set_if (include_transform_val \<noteq> PNone) ''includeTransform'' include_transform_val params
     in Inr params)))))))))))))"

text \<open>Lines 79 to 85: the value returned for a reply \<open>response\<close>.\<close>

definition normalize_response :: "(pyval \<Rightarrow> string) \<Rightarrow> pyval \<Rightarrow> pyval" where
  "normalize_response str response =
    (case response of
       PDict d \<Rightarrow>
         if truthy (dict_get d ''success'' PNone)
         then PDict [(''success'', PBool True),
                     (''message'', dict_get d ''message'' (PStr ''Prefab operation successful.'')),
                     (''data'', dict_get d ''data'' PNone)]
         else response
     | _ \<Rightarrow> PDict [(''success'', PBool False), (''message'', PStr (str response))])"

text \<open>Lines 48 to 85: the body of the \<open>try\<close> statement.\<close>

definition try_block :: "('ctx, 'inst) services \<Rightarrow> 'inst \<Rightarrow> prefab_args \<Rightarrow> 'inst call_outcome" where
  "try_block env unity_instance a =
    (case build_params env a of
       Inl exc \<Rightarrow> \<lparr>sends = 0, dispatched = [], result = Inl exc\<rparr>
     | Inr params \<Rightarrow>
         (case send_with_unity_instance env unity_instance ''manage_prefabs'' params of
            (n, r) \<Rightarrow>
              \<lparr>sends = n,
               dispatched = [(unity_instance, ''manage_prefabs'', params)],
               result = (case r of
                           Inl exc \<Rightarrow> Inl exc
                         | Inr response \<Rightarrow> Inr (normalize_response (py_str env) response))\<rparr>))"

text \<open>Lines 86 and 87: the handler \<open>except Exception as exc\<close>.\<close>

definition except_Exception :: "pyexc + pyval \<Rightarrow> pyexc + pyval" where
  "except_Exception r =
    (case r of
       Inl (PyException description) \<Rightarrow>
         Inr (PDict [(''success'', PBool False),
                     (''message'', PStr (''Python error managing prefabs: '' @ description))])
     | _ \<Rightarrow> r)"

text \<open>
  The whole function. The instance is looked up on line 46, before the \<open>try\<close> statement
  opens on line 48, so an exception of the lookup is not handled.
\<close>

definition manage_prefabs :: "('ctx, 'inst) services \<Rightarrow> 'ctx \<Rightarrow> prefab_args \<Rightarrow> 'inst call_outcome" where
  "manage_prefabs env ctx a =
    (case get_unity_instance_from_context env ctx of
       Inl exc \<Rightarrow> \<lparr>sends = 0, dispatched = [], result = Inl exc\<rparr>
     | Inr unity_instance \<Rightarrow>
         (let out = try_block env unity_instance a
          in out\<lparr>result := except_Exception (result out)\<rparr>))"

section \<open>The collaborators as the specification describes them\<close>

text \<open>
  Modelled from the spec: the Instance Resolver \<open>get_unity_instance_from_context\<close>
  (module \<open>services.tools\<close>, not among the sources). Section 4.2: it "returns the
  InstanceHandle currently bound to that session", it "fails with NoActiveInstance when
  no instance is bound", and it is "purely a registry lookup keyed by context identity";
  section 6 gives the registry as \<open>lookup(sessionContext) -> InstanceHandle | NotFound\<close>.
\<close>

definition NoActiveInstance :: pyexc where
  "NoActiveInstance = PyException ''no active instance''"

definition instance_resolver :: "('ctx \<Rightarrow> 'inst option) \<Rightarrow> 'ctx \<Rightarrow> pyexc + 'inst" where
  "instance_resolver registry ctx =
    (case registry ctx of None \<Rightarrow> Inl NoActiveInstance | Some handle \<Rightarrow> Inr handle)"

definition lower_char :: "char \<Rightarrow> char" where
  "lower_char c =
    (case map_of (zip ''ABCDEFGHIJKLMNOPQRSTUVWXYZ'' ''abcdefghijklmnopqrstuvwxyz'') c of
       None \<Rightarrow> c
     | Some l \<Rightarrow> l)"

text \<open>
  Modelled from the spec: \<open>coerce_bool\<close> (module \<open>services.tools.utils\<close>, not among
  the sources). Section 4.1: it "accepts native boolean, or case-insensitive string forms
  ("true"/"false"/"1"/"0"/"yes"/"no")"; "unrecognized input yields "no value" (field
  omitted) rather than raising".
\<close>

definition coerce_bool_spec :: "pyval \<Rightarrow> pyval" where
  "coerce_bool_spec v =
    (case v of
       PBool b \<Rightarrow> PBool b
     | PStr s \<Rightarrow>
         (let l = map lower_char s
          in if l \<in> set [''true'', ''1'', ''yes''] then PBool True
             else if l \<in> set [''false'', ''0'', ''no''] then PBool False
             else PNone)
     | _ \<Rightarrow> PNone)"

definition digit_of :: "char \<Rightarrow> nat option" where
  "digit_of c = map_of (zip ''0123456789'' [0, 1, 2, 3, 4, 5, 6, 7, 8, 9]) c"

fun digits_value :: "nat \<Rightarrow> string \<Rightarrow> nat option" where
  "digits_value acc [] = Some acc"
| "digits_value acc (c # cs) =
    (case digit_of c of None \<Rightarrow> None | Some d \<Rightarrow> digits_value (10 * acc + d) cs)"

text \<open>A numeric string: decimal digits, at least one, after an optional sign.\<close>

definition numeric_string :: "string \<Rightarrow> int option" where
  "numeric_string s =
    (case s of
       [] \<Rightarrow> None
     | c # cs \<Rightarrow>
         if c = CHR ''-'' then (if cs = [] then None else map_option (\<lambda>n. - int n) (digits_value 0 cs))
         else if c = CHR ''+'' then (if cs = [] then None else map_option int (digits_value 0 cs))
         else map_option int (digits_value 0 s))"

text \<open>
  Modelled from the spec: \<open>coerce_int\<close> (module \<open>services.tools.utils\<close>, not among
  the sources). Section 4.1: it "accepts native integer, float with integral value, or
  numeric string; non-numeric input yields "no value"; an explicit default may be
  supplied, returned when input is absent".
\<close>

definition coerce_int_spec :: "pyval \<Rightarrow> pyval \<Rightarrow> pyval" where
  "coerce_int_spec v dflt =
    (case v of
       PNone \<Rightarrow> dflt
     | PInt i \<Rightarrow> PInt i
     | PFloat x \<Rightarrow> (if of_int \<lfloor>x\<rfloor> = x then PInt \<lfloor>x\<rfloor> else PNone)
     | PStr s \<Rightarrow> (case numeric_string s of None \<Rightarrow> PNone | Some i \<Rightarrow> PInt i)
     | _ \<Rightarrow> PNone)"

text \<open>
  The services with the resolver and the coercions of the specification; the dispatcher
  and \<open>str\<close> stay parameters.
\<close>

definition spec_services ::
  "('ctx \<Rightarrow> 'inst option) \<Rightarrow> ('inst \<Rightarrow> string \<Rightarrow> pydict \<Rightarrow> nat \<times> (pyexc + pyval)) \<Rightarrow>
   (pyval \<Rightarrow> string) \<Rightarrow> ('ctx, 'inst) services" where
  "spec_services registry send str =
    \<lparr>get_unity_instance_from_context = instance_resolver registry,
     send_with_unity_instance = send,
     coerce_bool = (\<lambda>v. Inr (coerce_bool_spec v)),
     coerce_int = (\<lambda>v dflt. Inr (coerce_int_spec v dflt)),
     py_str = str\<rparr>"

section \<open>Concrete runs\<close>

text \<open>
  One session bound to one editor instance; a dispatcher that makes one send and gets
  the given reply, and one whose send fails; a rendering of values that is Python's
  \<open>str\<close> on \<open>None\<close>, booleans and strings.
\<close>

definition one_session :: "string \<Rightarrow> string option" where
  "one_session ctx = (if ctx = ''session-1'' then Some ''editor-1'' else None)"

definition reply_with :: "pyval \<Rightarrow> string \<Rightarrow> string \<Rightarrow> pydict \<Rightarrow> nat \<times> (pyexc + pyval)" where
  "reply_with response unity_instance command params = (1, Inr response)"

definition fail_with :: "pyexc \<Rightarrow> string \<Rightarrow> string \<Rightarrow> pydict \<Rightarrow> nat \<times> (pyexc + pyval)" where
  "fail_with exc unity_instance command params = (1, Inl exc)"

definition str_of :: "pyval \<Rightarrow> string" where
  "str_of v =
    (case v of
       PNone \<Rightarrow> ''None''
     | PBool b \<Rightarrow> (if b then ''True'' else ''False'')
     | PStr s \<Rightarrow> s
     | _ \<Rightarrow> ''<object>'')"

definition only_action :: "pyval \<Rightarrow> prefab_args" where
  "only_action act =
    \<lparr>action = act, prefab_path = PNone, mode = PNone, save_before_close = PNone,
     target = PNone, allow_overwrite = PNone, search_inactive = PNone, parent = PNone,
     page_size = PNone, cursor = PNone, include_transform = PNone\<rparr>"

text \<open>
  A call whose optional arguments are absent, empty, or not interpretable by the
  coercions, but for \<open>parent\<close> and \<open>include_transform\<close>.
\<close>

definition loose_args :: prefab_args where
  "loose_args =
    (only_action (PStr ''get_hierarchy''))
      \<lparr>prefab_path := PStr [], save_before_close := PStr ''maybe'', parent := PStr ''Root'',
       page_size := PStr ''many'', cursor := PList [], include_transform := PStr ''YES''\<rparr>"

text \<open>
  The scenario of the specification: \<open>get_hierarchy\<close> under \<open>Root\<close>, fifty items a
  page from cursor 0, answered with a page of items and the next cursor, no message.
\<close>

definition hierarchy_args :: prefab_args where
  "hierarchy_args =
    (only_action (PStr ''get_hierarchy''))
      \<lparr>parent := PStr ''Root'', page_size := PInt 50, cursor := PInt 0\<rparr>"

definition hierarchy_data :: pyval where
  "hierarchy_data =
    PDict [(''items'', PList [PStr ''Root/Body'', PStr ''Root/Wheel'']), (''nextCursor'', PInt 50)]"

definition hierarchy_reply :: pyval where
  "hierarchy_reply = PDict [(''success'', PBool True), (''data'', hierarchy_data)]"

section \<open>Facts about the parts\<close>

lemma manage_prefabs_reply:
  assumes "get_unity_instance_from_context env ctx = Inr inst"
    and "build_params env a = Inr params"
    and "send_with_unity_instance env inst ''manage_prefabs'' params = (n, Inr response)"
  shows "manage_prefabs env ctx a =
    \<lparr>sends = n, dispatched = [(inst, ''manage_prefabs'', params)],
     result = Inr (normalize_response (py_str env) response)\<rparr>"
  using assms by (simp add: manage_prefabs_def try_block_def except_Exception_def)

lemma normalize_success:
  "truthy (dict_get d ''success'' PNone) \<Longrightarrow>
   normalize_response str (PDict d) =
     PDict [(''success'', PBool True),
            (''message'', dict_get d ''message'' (PStr ''Prefab operation successful.'')),
            (''data'', dict_get d ''data'' PNone)]"
  by (simp add: normalize_response_def)

lemma normalize_passthrough:
  "\<not> truthy (dict_get d ''success'' PNone) \<Longrightarrow> normalize_response str (PDict d) = PDict d"
  by (simp add: normalize_response_def)

lemma normalize_not_dict:
  "\<not> isinstance_dict response \<Longrightarrow>
   normalize_response str response =
     PDict [(''success'', PBool False), (''message'', PStr (str response))]"
  by (cases response) (simp_all add: normalize_response_def)

lemma resolve_bound:
  "get_unity_instance_from_context (spec_services one_session send str) ''session-1'' = Inr ''editor-1''"
  by (simp add: spec_services_def instance_resolver_def one_session_def)

lemma build_only_action:
  "build_params (spec_services registry send str) (only_action act) = Inr [(''action'', act)]"
  by (simp add: build_params_def bind_exc_def spec_services_def only_action_def set_if_def
      coerce_bool_spec_def coerce_int_spec_def)

lemma build_hierarchy:
  "build_params (spec_services registry send str) hierarchy_args =
     Inr [(''action'', PStr ''get_hierarchy''), (''parent'', PStr ''Root''),
          (''pageSize'', PInt 50), (''cursor'', PInt 0)]"
  by (simp add: build_params_def bind_exc_def spec_services_def only_action_def hierarchy_args_def
      set_if_def coerce_bool_spec_def coerce_int_spec_def)

lemma send_reply_with:
  "send_with_unity_instance (spec_services registry (reply_with response) str) inst command params
     = (1, Inr response)"
  by (simp add: spec_services_def reply_with_def)

lemma map_of_set_if:
  "map_of (set_if c k v params) k' = (if c \<and> k' = k then Some v else map_of params k')"
  by (simp add: set_if_def update_conv')

lemma keys_set_if:
  "fst ` set params \<subseteq> S \<Longrightarrow> k \<in> S \<Longrightarrow> fst ` set (set_if c k v params) \<subseteq> S"
  by (simp add: set_if_def dom_update)

lemma build_params_returns:
  assumes "build_params env a = Inr params"
  shows "\<exists>sbc ao si ps cu it.
      coerce_bool env (save_before_close a) = Inr sbc
    \<and> coerce_bool env (allow_overwrite a) = Inr ao
    \<and> coerce_bool env (search_inactive a) = Inr si
    \<and> coerce_int env (page_size a) PNone = Inr ps
    \<and> coerce_int env (cursor a) PNone = Inr cu
    \<and> coerce_bool env (include_transform a) = Inr it
    \<and> params =
        set_if (it \<noteq> PNone) ''includeTransform'' it
       (set_if (cu \<noteq> PNone) ''cursor'' cu
       (set_if (ps \<noteq> PNone) ''pageSize'' ps
       (set_if (truthy (parent a)) ''parent'' (parent a)
       (set_if (si \<noteq> PNone) ''searchInactive'' si
       (set_if (ao \<noteq> PNone) ''allowOverwrite'' ao
       (set_if (truthy (target a)) ''target'' (target a)
       (set_if (sbc \<noteq> PNone) ''saveBeforeClose'' sbc
       (set_if (truthy (mode a)) ''mode'' (mode a)
       (set_if (truthy (prefab_path a)) ''prefabPath'' (prefab_path a)
         [(''action'', action a)])))))))))"
  using assms
  by (simp add: build_params_def bind_exc_def Let_def split: sum.splits)


lemma build_params_action:
  assumes "build_params env a = Inr params"
  shows "map_of params ''action'' = Some (action a)"
  using build_params_returns [OF assms]
  by (clarsimp simp: map_of_set_if)

lemma build_params_keys:
  assumes "build_params env a = Inr params"
  shows "fst ` set params \<subseteq> set [''action'', ''prefabPath'', ''mode'', ''saveBeforeClose'',
      ''target'', ''allowOverwrite'', ''searchInactive'', ''parent'', ''pageSize'', ''cursor'',
      ''includeTransform'']"
  using build_params_returns [OF assms]
  apply (elim exE conjE)
  apply hypsubst
  apply (intro keys_set_if)
  apply simp_all
  done


lemma truthy_not_None: "truthy v \<Longrightarrow> v \<noteq> PNone"
  by auto

lemma build_params_spec:
  "build_params (spec_services registry send str) a = Inr
       (set_if (coerce_bool_spec (include_transform a) \<noteq> PNone) ''includeTransform''
          (coerce_bool_spec (include_transform a))
       (set_if (coerce_int_spec (cursor a) PNone \<noteq> PNone) ''cursor'' (coerce_int_spec (cursor a) PNone)
       (set_if (coerce_int_spec (page_size a) PNone \<noteq> PNone) ''pageSize''
          (coerce_int_spec (page_size a) PNone)
       (set_if (truthy (parent a)) ''parent'' (parent a)
       (set_if (coerce_bool_spec (search_inactive a) \<noteq> PNone) ''searchInactive''
          (coerce_bool_spec (search_inactive a))
       (set_if (coerce_bool_spec (allow_overwrite a) \<noteq> PNone) ''allowOverwrite''
          (coerce_bool_spec (allow_overwrite a))
       (set_if (truthy (target a)) ''target'' (target a)
       (set_if (coerce_bool_spec (save_before_close a) \<noteq> PNone) ''saveBeforeClose''
          (coerce_bool_spec (save_before_close a))
       (set_if (truthy (mode a)) ''mode'' (mode a)
       (set_if (truthy (prefab_path a)) ''prefabPath'' (prefab_path a)
         [(''action'', action a)]))))))))))"
  by (simp add: build_params_def bind_exc_def Let_def spec_services_def)

lemma build_params_spec_strings:
  assumes "build_params (spec_services registry send str) a = Inr params"
  shows "map_of params ''prefabPath'' = (if truthy (prefab_path a) then Some (prefab_path a) else None)"
    and "map_of params ''mode'' = (if truthy (mode a) then Some (mode a) else None)"
    and "map_of params ''target'' = (if truthy (target a) then Some (target a) else None)"
    and "map_of params ''parent'' = (if truthy (parent a) then Some (parent a) else None)"
  using assms unfolding build_params_spec
  by (clarsimp simp: map_of_set_if)+

lemma build_params_spec_bools:
  assumes "build_params (spec_services registry send str) a = Inr params"
  shows "map_of params ''saveBeforeClose'' =
      (if coerce_bool_spec (save_before_close a) = PNone then None
       else Some (coerce_bool_spec (save_before_close a)))"
    and "map_of params ''allowOverwrite'' =
      (if coerce_bool_spec (allow_overwrite a) = PNone then None
       else Some (coerce_bool_spec (allow_overwrite a)))"
    and "map_of params ''searchInactive'' =
      (if coerce_bool_spec (search_inactive a) = PNone then None
       else Some (coerce_bool_spec (search_inactive a)))"
    and "map_of params ''includeTransform'' =
      (if coerce_bool_spec (include_transform a) = PNone then None
       else Some (coerce_bool_spec (include_transform a)))"
  using assms unfolding build_params_spec
  by (clarsimp simp: map_of_set_if)+

lemma build_params_spec_ints:
  assumes "build_params (spec_services registry send str) a = Inr params"
  shows "map_of params ''pageSize'' =
      (if coerce_int_spec (page_size a) PNone = PNone then None
       else Some (coerce_int_spec (page_size a) PNone))"
    and "map_of params ''cursor'' =
      (if coerce_int_spec (cursor a) PNone = PNone then None
       else Some (coerce_int_spec (cursor a) PNone))"
  using assms unfolding build_params_spec
  by (clarsimp simp: map_of_set_if)+

lemma loose_args_fields:
  "prefab_path loose_args = PStr []" "mode loose_args = PNone" "target loose_args = PNone"
  "parent loose_args = PStr ''Root''" "save_before_close loose_args = PStr ''maybe''"
  "allow_overwrite loose_args = PNone" "search_inactive loose_args = PNone"
  "include_transform loose_args = PStr ''YES''" "page_size loose_args = PStr ''many''"
  "cursor loose_args = PList []" "action loose_args = PStr ''get_hierarchy''"
  by (simp_all add: loose_args_def only_action_def)

lemma loose_coercions:
  "coerce_bool_spec (PStr ''maybe'') = PNone" "coerce_bool_spec PNone = PNone"
  "coerce_bool_spec (PStr ''YES'') = PBool True"
  "coerce_int_spec (PStr ''many'') PNone = PNone" "coerce_int_spec (PList []) PNone = PNone"
  by (simp_all add: coerce_bool_spec_def coerce_int_spec_def lower_char_def numeric_string_def
      digit_of_def)

lemma result_cases:
  "result (manage_prefabs env ctx a) =
    (case get_unity_instance_from_context env ctx of
       Inl exc \<Rightarrow> Inl exc
     | Inr inst \<Rightarrow>
         except_Exception
           (case build_params env a of
              Inl exc \<Rightarrow> Inl exc
            | Inr params \<Rightarrow>
                (case snd (send_with_unity_instance env inst ''manage_prefabs'' params) of
                   Inl exc \<Rightarrow> Inl exc
                 | Inr response \<Rightarrow> Inr (normalize_response (py_str env) response))))"
  by (simp add: manage_prefabs_def try_block_def Let_def split: sum.splits prod.splits)

lemma except_Exception_simps:
  "except_Exception (Inl (PyException d)) =
     Inr (PDict [(''success'', PBool False),
                 (''message'', PStr (''Python error managing prefabs: '' @ d))])"
  "except_Exception (Inl (PyBaseException d)) = Inl (PyBaseException d)"
  "except_Exception (Inr v) = Inr v"
  by (simp_all add: except_Exception_def)

lemma except_Exception_no_Exception: "except_Exception r \<noteq> Inl (PyException d)"
  by (simp add: except_Exception_def split: sum.splits pyexc.splits)




section \<open>The claims\<close>

text \<open>
  C7. Normalising a reply twice gives what normalising it once gives. In particular a
  canonical success mapping \<open>{success: True, message: m, data: dt}\<close> comes back unchanged,
  message and data preserved, and so does a failure mapping, whose \<open>success\<close> is
  \<open>False\<close>, with whatever other fields it has.
\<close>

theorem normalize_response_idempotent:
  "normalize_response str (normalize_response str response) = normalize_response str response
   \<and> normalize_response str (PDict [(''success'', PBool True), (''message'', m), (''data'', dt)])
       = PDict [(''success'', PBool True), (''message'', m), (''data'', dt)]
   \<and> normalize_response str (PDict ((''success'', PBool False) # rest))
       = PDict ((''success'', PBool False) # rest)"
proof -
  have idem: "normalize_response str (normalize_response str response) = normalize_response str response"
  proof (cases response)
    case (PDict d)
    then show ?thesis
      by (cases "truthy (dict_get d ''success'' PNone)")
         (simp_all add: normalize_response_def dict_get_def)
  qed (simp_all add: normalize_response_def dict_get_def)
  have ok: "normalize_response str (PDict [(''success'', PBool True), (''message'', m), (''data'', dt)])
       = PDict [(''success'', PBool True), (''message'', m), (''data'', dt)]"
    by (simp add: normalize_response_def dict_get_def)
  have ko: "normalize_response str (PDict ((''success'', PBool False) # rest))
       = PDict ((''success'', PBool False) # rest)"
    by (simp add: normalize_response_def dict_get_def)
  from idem ok ko show ?thesis by blast
qed

text \<open>
  C3, as amended. When the instance is resolved, the params are built and the reply is a
  mapping whose \<open>success\<close> field is truthy, the call returns \<open>success: True\<close>, the
  reply's \<open>message\<close> field or, when the reply has none, the default
  \<open>Prefab operation successful.\<close>, and the reply's \<open>data\<close> field. The witness is
  the \<open>get_hierarchy\<close> scenario, whose reply has no message.
\<close>

theorem manage_prefabs_success_envelope:
  assumes "get_unity_instance_from_context env ctx = Inr inst"
    and "build_params env a = Inr params"
    and "send_with_unity_instance env inst ''manage_prefabs'' params = (n, Inr (PDict d))"
    and "truthy (dict_get d ''success'' PNone)"
  shows "result (manage_prefabs env ctx a) =
    Inr (PDict [(''success'', PBool True),
                (''message'', dict_get d ''message'' (PStr ''Prefab operation successful.'')),
                (''data'', dict_get d ''data'' PNone)])"
  using manage_prefabs_reply [OF assms(1-3)] normalize_success [OF assms(4)] by simp

theorem manage_prefabs_success_envelope_witness:
  "truthy (dict_get [(''success'', PBool True), (''data'', hierarchy_data)] ''success'' PNone)
   \<and> result (manage_prefabs (spec_services one_session (reply_with hierarchy_reply) str_of)
        ''session-1'' hierarchy_args) =
      Inr (PDict [(''success'', PBool True),
                  (''message'', PStr ''Prefab operation successful.''),
                  (''data'', hierarchy_data)])"
proof -
  have t: "truthy (dict_get [(''success'', PBool True), (''data'', hierarchy_data)] ''success'' PNone)"
    by (simp add: dict_get_def)
  have s: "send_with_unity_instance (spec_services one_session (reply_with hierarchy_reply) str_of)
      ''editor-1'' ''manage_prefabs''
      [(''action'', PStr ''get_hierarchy''), (''parent'', PStr ''Root''),
       (''pageSize'', PInt 50), (''cursor'', PInt 0)]
      = (1, Inr (PDict [(''success'', PBool True), (''data'', hierarchy_data)]))"
    by (simp add: send_reply_with hierarchy_reply_def)
  show ?thesis
    using t manage_prefabs_success_envelope [OF resolve_bound build_hierarchy s t]
    by (simp add: dict_get_def)
qed

text \<open>
  C3 as stated names the default \<open>Operation successful.\<close>; the scenario does not return
  the envelope with that message.
\<close>

theorem default_message_counterexample:
  "result (manage_prefabs (spec_services one_session (reply_with hierarchy_reply) str_of)
        ''session-1'' hierarchy_args) \<noteq>
      Inr (PDict [(''success'', PBool True),
                  (''message'', PStr ''Operation successful.''),
                  (''data'', hierarchy_data)])"
proof -
  have s: "send_with_unity_instance (spec_services one_session (reply_with hierarchy_reply) str_of)
      ''editor-1'' ''manage_prefabs''
      [(''action'', PStr ''get_hierarchy''), (''parent'', PStr ''Root''),
       (''pageSize'', PInt 50), (''cursor'', PInt 0)]
      = (1, Inr hierarchy_reply)"
    by (simp add: send_reply_with)
  show ?thesis
    using manage_prefabs_reply [OF resolve_bound build_hierarchy s]
    by (simp add: normalize_response_def hierarchy_reply_def dict_get_def spec_services_def)
qed

text \<open>
  C4. When the reply is a mapping that has no \<open>success\<close> field, or whose \<open>success\<close>
  field is falsy, the call returns that mapping itself: every key and value in place,
  nothing added.
\<close>

theorem manage_prefabs_failure_passthrough:
  assumes "get_unity_instance_from_context env ctx = Inr inst"
    and "build_params env a = Inr params"
    and "send_with_unity_instance env inst ''manage_prefabs'' params = (n, Inr (PDict d))"
    and "\<not> truthy (dict_get d ''success'' PNone)"
  shows "result (manage_prefabs env ctx a) = Inr (PDict d)"
  using manage_prefabs_reply [OF assms(1-3)] normalize_passthrough [OF assms(4)] by simp

theorem manage_prefabs_failure_passthrough_witness:
  "\<not> truthy (dict_get [(''error'', PStr ''Prefab not found''), (''code'', PInt 404)] ''success'' PNone)
   \<and> result (manage_prefabs
        (spec_services one_session
          (reply_with (PDict [(''error'', PStr ''Prefab not found''), (''code'', PInt 404)])) str_of)
        ''session-1'' (only_action (PStr ''save_open_stage''))) =
      Inr (PDict [(''error'', PStr ''Prefab not found''), (''code'', PInt 404)])
   \<and> \<not> truthy (dict_get [(''success'', PBool False), (''message'', PStr ''No stage open'')] ''success'' PNone)
   \<and> result (manage_prefabs
        (spec_services one_session
          (reply_with (PDict [(''success'', PBool False), (''message'', PStr ''No stage open'')])) str_of)
        ''session-1'' (only_action (PStr ''save_open_stage''))) =
      Inr (PDict [(''success'', PBool False), (''message'', PStr ''No stage open'')])"
proof -
  have t1: "\<not> truthy (dict_get [(''error'', PStr ''Prefab not found''), (''code'', PInt 404)] ''success'' PNone)"
    by (simp add: dict_get_def)
  have t2: "\<not> truthy (dict_get [(''success'', PBool False), (''message'', PStr ''No stage open'')] ''success'' PNone)"
    by (simp add: dict_get_def)
  show ?thesis
    using t1 t2
      manage_prefabs_failure_passthrough [OF resolve_bound build_only_action send_reply_with t1]
      manage_prefabs_failure_passthrough [OF resolve_bound build_only_action send_reply_with t2]
    by simp
qed

text \<open>
  C8. When the reply is not a mapping, the call returns \<open>success: False\<close> with the
  string representation of the reply as the message.
\<close>

theorem manage_prefabs_non_mapping_reply:
  assumes "get_unity_instance_from_context env ctx = Inr inst"
    and "build_params env a = Inr params"
    and "send_with_unity_instance env inst ''manage_prefabs'' params = (n, Inr response)"
    and "\<not> isinstance_dict response"
  shows "result (manage_prefabs env ctx a) =
    Inr (PDict [(''success'', PBool False), (''message'', PStr (py_str env response))])"
  using manage_prefabs_reply [OF assms(1-3)] normalize_not_dict [OF assms(4)] by simp

theorem manage_prefabs_non_mapping_reply_witness:
  "\<not> isinstance_dict (PStr ''Unity is reloading'')
   \<and> result (manage_prefabs
        (spec_services one_session (reply_with (PStr ''Unity is reloading'')) str_of)
        ''session-1'' (only_action (PStr ''open_stage''))) =
      Inr (PDict [(''success'', PBool False), (''message'', PStr ''Unity is reloading'')])
   \<and> \<not> isinstance_dict PNone
   \<and> result (manage_prefabs (spec_services one_session (reply_with PNone) str_of)
        ''session-1'' (only_action (PStr ''open_stage''))) =
      Inr (PDict [(''success'', PBool False), (''message'', PStr ''None'')])"
proof -
  have t1: "\<not> isinstance_dict (PStr ''Unity is reloading'')" by simp
  have t2: "\<not> isinstance_dict PNone" by simp
  show ?thesis
    using t1 t2
      manage_prefabs_non_mapping_reply [OF resolve_bound build_only_action send_reply_with t1]
      manage_prefabs_non_mapping_reply [OF resolve_bound build_only_action send_reply_with t2]
    by (simp add: spec_services_def str_of_def)
qed

text \<open>
  C10. When the reply is a mapping with a truthy \<open>success\<close> field, the returned mapping
  has exactly the keys \<open>success\<close>, \<open>message\<close> and \<open>data\<close>, in that order: \<open>data\<close>
  is always there, \<open>None\<close> when the reply has no \<open>data\<close> field, and no other key of
  the reply is kept.
\<close>

theorem manage_prefabs_success_keys:
  assumes "get_unity_instance_from_context env ctx = Inr inst"
    and "build_params env a = Inr params"
    and "send_with_unity_instance env inst ''manage_prefabs'' params = (n, Inr (PDict d))"
    and "truthy (dict_get d ''success'' PNone)"
  shows "\<exists>r. result (manage_prefabs env ctx a) = Inr (PDict r)
    \<and> map fst r = [''success'', ''message'', ''data'']
    \<and> map_of r ''success'' = Some (PBool True)
    \<and> map_of r ''data'' = Some (case map_of d ''data'' of None \<Rightarrow> PNone | Some v \<Rightarrow> v)
    \<and> (\<forall>k. k \<notin> set [''success'', ''message'', ''data''] \<longrightarrow> map_of r k = None)"
  using manage_prefabs_reply [OF assms(1-3)] normalize_success [OF assms(4)]
  by (simp add: dict_get_def)

theorem manage_prefabs_success_keys_witness:
  "truthy (dict_get [(''success'', PInt 1), (''message'', PStr ''Stage opened''),
                     (''stage'', PStr ''Assets/Prefabs/favorite.prefab'')] ''success'' PNone)
   \<and> (\<exists>r. result (manage_prefabs
        (spec_services one_session
          (reply_with (PDict [(''success'', PInt 1), (''message'', PStr ''Stage opened''),
                              (''stage'', PStr ''Assets/Prefabs/favorite.prefab'')])) str_of)
        ''session-1'' (only_action (PStr ''open_stage''))) = Inr (PDict r)
      \<and> map fst r = [''success'', ''message'', ''data'']
      \<and> map_of r ''data'' = Some PNone
      \<and> map_of r ''stage'' = None)"
proof -
  let ?d = "[(''success'', PInt 1), (''message'', PStr ''Stage opened''),
             (''stage'', PStr ''Assets/Prefabs/favorite.prefab'')]"
  let ?env = "spec_services one_session (reply_with (PDict ?d)) str_of"
  have t: "truthy (dict_get ?d ''success'' PNone)"
    by (simp add: dict_get_def)
  have h1: "get_unity_instance_from_context ?env ''session-1'' = Inr ''editor-1''"
    by (rule resolve_bound)
  have h2: "build_params ?env (only_action (PStr ''open_stage'')) = Inr [(''action'', PStr ''open_stage'')]"
    by (rule build_only_action)
  have h3: "send_with_unity_instance ?env ''editor-1'' ''manage_prefabs'' [(''action'', PStr ''open_stage'')]
      = (1, Inr (PDict ?d))"
    by (rule send_reply_with)
  let ?out = "result (manage_prefabs ?env ''session-1'' (only_action (PStr ''open_stage'')))"
  from manage_prefabs_success_keys [OF h1 h2 h3 t]
  obtain r where r: "?out = Inr (PDict r)
      \<and> map fst r = [''success'', ''message'', ''data'']
      \<and> map_of r ''success'' = Some (PBool True)
      \<and> map_of r ''data'' = Some (case map_of ?d ''data'' of None \<Rightarrow> PNone | Some v \<Rightarrow> v)
      \<and> (\<forall>k. k \<notin> set [''success'', ''message'', ''data''] \<longrightarrow> map_of r k = None)" ..
  from r have r1: "?out = Inr (PDict r)"
    by (rule conjunct1)
  from r have r2: "map fst r = [''success'', ''message'', ''data'']"
    by (rule conjunct2 [THEN conjunct1])
  from r have r4: "map_of r ''data'' = Some (case map_of ?d ''data'' of None \<Rightarrow> PNone | Some v \<Rightarrow> v)"
    by (rule conjunct2 [THEN conjunct2, THEN conjunct2, THEN conjunct1])
  from r have r5: "\<forall>k. k \<notin> set [''success'', ''message'', ''data''] \<longrightarrow> map_of r k = None"
    by (rule conjunct2 [THEN conjunct2, THEN conjunct2, THEN conjunct2])
  from r4 have d: "map_of r ''data'' = Some PNone"
    by simp
  from r5 have "''stage'' \<notin> set [''success'', ''message'', ''data''] \<longrightarrow> map_of r ''stage'' = None"
    by (rule spec)
  moreover have "''stage'' \<notin> set [''success'', ''message'', ''data'']"
    by simp
  ultimately have o: "map_of r ''stage'' = None"
    by (rule mp)
  from d o have c1: "map_of r ''data'' = Some PNone \<and> map_of r ''stage'' = None"
    by (rule conjI)
  from r2 c1 have c2: "map fst r = [''success'', ''message'', ''data'']
      \<and> map_of r ''data'' = Some PNone \<and> map_of r ''stage'' = None"
    by (rule conjI)
  from r1 c2 have c3: "?out = Inr (PDict r) \<and> map fst r = [''success'', ''message'', ''data'']
      \<and> map_of r ''data'' = Some PNone \<and> map_of r ''stage'' = None"
    by (rule conjI)
  have "\<exists>r. ?out = Inr (PDict r) \<and> map fst r = [''success'', ''message'', ''data'']
      \<and> map_of r ''data'' = Some PNone \<and> map_of r ''stage'' = None"
  proof (rule exI)
    show "?out = Inr (PDict r) \<and> map fst r = [''success'', ''message'', ''data'']
      \<and> map_of r ''data'' = Some PNone \<and> map_of r ''stage'' = None"
      by (rule c3)
  qed
  with t show ?thesis by (rule conjI)
qed



text \<open>
  C6. With the coercions of the specification, building the params never raises, and the
  mapping built has the action and, of the ten optional keys, exactly those whose
  argument resolved to a value: a string field when it is truthy (not absent, not the
  empty string), a coerced field when the coercion gave a value other than \<open>None\<close>.
  No other key occurs and no optional key is ever set to \<open>None\<close>. An absent argument
  is falsy and is coerced to \<open>None\<close>.
\<close>

theorem build_params_only_defined_fields:
  "\<exists>params. build_params (spec_services registry send str) a = Inr params
    \<and> map_of params ''action'' = Some (action a)
    \<and> map_of params ''prefabPath'' = (if truthy (prefab_path a) then Some (prefab_path a) else None)
    \<and> map_of params ''mode'' = (if truthy (mode a) then Some (mode a) else None)
    \<and> map_of params ''target'' = (if truthy (target a) then Some (target a) else None)
    \<and> map_of params ''parent'' = (if truthy (parent a) then Some (parent a) else None)
    \<and> map_of params ''saveBeforeClose'' =
        (if coerce_bool_spec (save_before_close a) = PNone then None
         else Some (coerce_bool_spec (save_before_close a)))
    \<and> map_of params ''allowOverwrite'' =
        (if coerce_bool_spec (allow_overwrite a) = PNone then None
         else Some (coerce_bool_spec (allow_overwrite a)))
    \<and> map_of params ''searchInactive'' =
        (if coerce_bool_spec (search_inactive a) = PNone then None
         else Some (coerce_bool_spec (search_inactive a)))
    \<and> map_of params ''includeTransform'' =
        (if coerce_bool_spec (include_transform a) = PNone then None
         else Some (coerce_bool_spec (include_transform a)))
    \<and> map_of params ''pageSize'' =
        (if coerce_int_spec (page_size a) PNone = PNone then None
         else Some (coerce_int_spec (page_size a) PNone))
    \<and> map_of params ''cursor'' =
        (if coerce_int_spec (cursor a) PNone = PNone then None
         else Some (coerce_int_spec (cursor a) PNone))
    \<and> fst ` set params \<subseteq> set [''action'', ''prefabPath'', ''mode'', ''saveBeforeClose'',
          ''target'', ''allowOverwrite'', ''searchInactive'', ''parent'', ''pageSize'', ''cursor'',
          ''includeTransform'']
    \<and> (\<forall>k \<in> set [''prefabPath'', ''mode'', ''saveBeforeClose'', ''target'', ''allowOverwrite'',
          ''searchInactive'', ''parent'', ''pageSize'', ''cursor'', ''includeTransform''].
          map_of params k \<noteq> Some PNone)
    \<and> \<not> truthy PNone \<and> \<not> truthy (PStr [])
    \<and> coerce_bool_spec PNone = PNone \<and> coerce_int_spec PNone PNone = PNone"
proof -
  let ?env = "spec_services registry send str"
  obtain params where p: "build_params ?env a = Inr params"
    by (simp add: build_params_spec)
  note s = build_params_spec_strings [OF p]
  note b = build_params_spec_bools [OF p]
  note i = build_params_spec_ints [OF p]
  note k0 = build_params_action [OF p]
  note keys = build_params_keys [OF p]
  have n1: "map_of params ''prefabPath'' \<noteq> Some PNone" by (auto simp: s)
  have n2: "map_of params ''mode'' \<noteq> Some PNone" by (auto simp: s)
  have n3: "map_of params ''target'' \<noteq> Some PNone" by (auto simp: s)
  have n4: "map_of params ''parent'' \<noteq> Some PNone" by (auto simp: s)
  have n5: "map_of params ''saveBeforeClose'' \<noteq> Some PNone" by (simp add: b)
  have n6: "map_of params ''allowOverwrite'' \<noteq> Some PNone" by (simp add: b)
  have n7: "map_of params ''searchInactive'' \<noteq> Some PNone" by (simp add: b)
  have n8: "map_of params ''includeTransform'' \<noteq> Some PNone" by (simp add: b)
  have n9: "map_of params ''pageSize'' \<noteq> Some PNone" by (simp add: i)
  have n10: "map_of params ''cursor'' \<noteq> Some PNone" by (simp add: i)
  have nn: "\<forall>k \<in> set [''prefabPath'', ''mode'', ''saveBeforeClose'', ''target'', ''allowOverwrite'',
          ''searchInactive'', ''parent'', ''pageSize'', ''cursor'', ''includeTransform''].
          map_of params k \<noteq> Some PNone"
    using n1 n2 n3 n4 n5 n6 n7 n8 n9 n10 by simp
  have t1: "\<not> truthy PNone" by simp
  have t2: "\<not> truthy (PStr [])" by simp
  have c1: "coerce_bool_spec PNone = PNone" by (simp add: coerce_bool_spec_def)
  have c2: "coerce_int_spec PNone PNone = PNone" by (simp add: coerce_int_spec_def)
  show ?thesis
  proof (rule exI)
    show "build_params (spec_services registry send str) a = Inr params
    \<and> map_of params ''action'' = Some (action a)
    \<and> map_of params ''prefabPath'' = (if truthy (prefab_path a) then Some (prefab_path a) else None)
    \<and> map_of params ''mode'' = (if truthy (mode a) then Some (mode a) else None)
    \<and> map_of params ''target'' = (if truthy (target a) then Some (target a) else None)
    \<and> map_of params ''parent'' = (if truthy (parent a) then Some (parent a) else None)
    \<and> map_of params ''saveBeforeClose'' =
        (if coerce_bool_spec (save_before_close a) = PNone then None
         else Some (coerce_bool_spec (save_before_close a)))
    \<and> map_of params ''allowOverwrite'' =
        (if coerce_bool_spec (allow_overwrite a) = PNone then None
         else Some (coerce_bool_spec (allow_overwrite a)))
    \<and> map_of params ''searchInactive'' =
        (if coerce_bool_spec (search_inactive a) = PNone then None
         else Some (coerce_bool_spec (search_inactive a)))
    \<and> map_of params ''includeTransform'' =
        (if coerce_bool_spec (include_transform a) = PNone then None
         else Some (coerce_bool_spec (include_transform a)))
    \<and> map_of params ''pageSize'' =
        (if coerce_int_spec (page_size a) PNone = PNone then None
         else Some (coerce_int_spec (page_size a) PNone))
    \<and> map_of params ''cursor'' =
        (if coerce_int_spec (cursor a) PNone = PNone then None
         else Some (coerce_int_spec (cursor a) PNone))
    \<and> fst ` set params \<subseteq> set [''action'', ''prefabPath'', ''mode'', ''saveBeforeClose'',
          ''target'', ''allowOverwrite'', ''searchInactive'', ''parent'', ''pageSize'', ''cursor'',
          ''includeTransform'']
    \<and> (\<forall>k \<in> set [''prefabPath'', ''mode'', ''saveBeforeClose'', ''target'', ''allowOverwrite'',
          ''searchInactive'', ''parent'', ''pageSize'', ''cursor'', ''includeTransform''].
          map_of params k \<noteq> Some PNone)
    \<and> \<not> truthy PNone \<and> \<not> truthy (PStr [])
    \<and> coerce_bool_spec PNone = PNone \<and> coerce_int_spec PNone PNone = PNone"
      by (intro conjI p k0 s b i keys nn t1 t2 c1 c2)
  qed
qed

theorem build_params_only_defined_fields_witness:
  "\<exists>params. build_params (spec_services one_session (reply_with PNone) str_of) loose_args = Inr params
    \<and> map_of params ''action'' = Some (PStr ''get_hierarchy'')
    \<and> map_of params ''prefabPath'' = None
    \<and> map_of params ''mode'' = None
    \<and> map_of params ''target'' = None
    \<and> map_of params ''parent'' = Some (PStr ''Root'')
    \<and> map_of params ''saveBeforeClose'' = None
    \<and> map_of params ''allowOverwrite'' = None
    \<and> map_of params ''searchInactive'' = None
    \<and> map_of params ''includeTransform'' = Some (PBool True)
    \<and> map_of params ''pageSize'' = None
    \<and> map_of params ''cursor'' = None"
  using build_params_only_defined_fields [of one_session "reply_with PNone" str_of loose_args]
  unfolding loose_args_fields loose_coercions
  by (elim exE conjE, intro exI conjI) simp_all

text \<open>
  C1, as amended. An error raised by the instance lookup reaches the caller as it is,
  with nothing sent. Once the instance is resolved, no error of class \<open>Exception\<close>
  reaches the caller: one raised while the params are built or by the dispatch is turned
  into \<open>success: False\<close> with the message \<open>Python error managing prefabs: \<close> followed
  by the error's text. An exception outside the \<open>Exception\<close> hierarchy, such as a
  cancellation, is not caught.
\<close>

theorem manage_prefabs_exception_boundary:
  "(get_unity_instance_from_context env ctx = Inl exc \<longrightarrow>
      manage_prefabs env ctx a = \<lparr>sends = 0, dispatched = [], result = Inl exc\<rparr>)
   \<and> (get_unity_instance_from_context env ctx = Inr inst \<longrightarrow>
        (\<forall>d. result (manage_prefabs env ctx a) \<noteq> Inl (PyException d))
      \<and> (\<forall>d. build_params env a = Inl (PyException d) \<longrightarrow>
            result (manage_prefabs env ctx a) =
              Inr (PDict [(''success'', PBool False),
                          (''message'', PStr (''Python error managing prefabs: '' @ d))]))
      \<and> (\<forall>d params. build_params env a = Inr params
              \<and> snd (send_with_unity_instance env inst ''manage_prefabs'' params) = Inl (PyException d) \<longrightarrow>
            result (manage_prefabs env ctx a) =
              Inr (PDict [(''success'', PBool False),
                          (''message'', PStr (''Python error managing prefabs: '' @ d))]))
      \<and> (\<forall>d. build_params env a = Inl (PyBaseException d) \<longrightarrow>
            result (manage_prefabs env ctx a) = Inl (PyBaseException d))
      \<and> (\<forall>d params. build_params env a = Inr params
              \<and> snd (send_with_unity_instance env inst ''manage_prefabs'' params) = Inl (PyBaseException d) \<longrightarrow>
            result (manage_prefabs env ctx a) = Inl (PyBaseException d)))"
proof (intro conjI impI allI)
  assume "get_unity_instance_from_context env ctx = Inl exc"
  then show "manage_prefabs env ctx a = \<lparr>sends = 0, dispatched = [], result = Inl exc\<rparr>"
    by (simp add: manage_prefabs_def)
next
  fix d
  assume "get_unity_instance_from_context env ctx = Inr inst"
  then show "result (manage_prefabs env ctx a) \<noteq> Inl (PyException d)"
    by (simp add: result_cases except_Exception_no_Exception)
next
  fix d
  assume "get_unity_instance_from_context env ctx = Inr inst"
    and "build_params env a = Inl (PyException d)"
  then show "result (manage_prefabs env ctx a) =
      Inr (PDict [(''success'', PBool False),
                  (''message'', PStr (''Python error managing prefabs: '' @ d))])"
    by (simp add: result_cases except_Exception_simps)
next
  fix d params
  assume "get_unity_instance_from_context env ctx = Inr inst"
    and "build_params env a = Inr params
      \<and> snd (send_with_unity_instance env inst ''manage_prefabs'' params) = Inl (PyException d)"
  then show "result (manage_prefabs env ctx a) =
      Inr (PDict [(''success'', PBool False),
                  (''message'', PStr (''Python error managing prefabs: '' @ d))])"
    by (simp add: result_cases except_Exception_simps)
next
  fix d
  assume "get_unity_instance_from_context env ctx = Inr inst"
    and "build_params env a = Inl (PyBaseException d)"
  then show "result (manage_prefabs env ctx a) = Inl (PyBaseException d)"
    by (simp add: result_cases except_Exception_simps)
next
  fix d params
  assume "get_unity_instance_from_context env ctx = Inr inst"
    and "build_params env a = Inr params
      \<and> snd (send_with_unity_instance env inst ''manage_prefabs'' params) = Inl (PyBaseException d)"
  then show "result (manage_prefabs env ctx a) = Inl (PyBaseException d)"
    by (simp add: result_cases except_Exception_simps)
qed

theorem manage_prefabs_exception_boundary_witness:
  "result (manage_prefabs (spec_services one_session (fail_with (PyException ''Connection reset'')) str_of)
      ''session-1'' (only_action (PStr ''open_stage''))) =
     Inr (PDict [(''success'', PBool False),
                 (''message'', PStr ''Python error managing prefabs: Connection reset'')])
   \<and> result (manage_prefabs
        ((spec_services one_session (reply_with PNone) str_of)
           \<lparr>coerce_int := \<lambda>v dflt. Inl (PyException ''invalid literal'')\<rparr>)
        ''session-1'' (only_action (PStr ''get_hierarchy''))) =
     Inr (PDict [(''success'', PBool False),
                 (''message'', PStr ''Python error managing prefabs: invalid literal'')])
   \<and> result (manage_prefabs
        (spec_services one_session (fail_with (PyBaseException ''CancelledError'')) str_of)
        ''session-1'' (only_action (PStr ''open_stage''))) = Inl (PyBaseException ''CancelledError'')"
proof -
  let ?a = "only_action (PStr ''open_stage'')"
  let ?e1 = "spec_services one_session (fail_with (PyException ''Connection reset'')) str_of"
  let ?e2 = "(spec_services one_session (reply_with PNone) str_of)
           \<lparr>coerce_int := \<lambda>v dflt. Inl (PyException ''invalid literal'')\<rparr>"
  let ?e3 = "spec_services one_session (fail_with (PyBaseException ''CancelledError'')) str_of"
  have r1: "get_unity_instance_from_context ?e1 ''session-1'' = Inr ''editor-1''"
    by (rule resolve_bound)
  have b1: "build_params ?e1 ?a = Inr [(''action'', PStr ''open_stage'')]"
    by (rule build_only_action)
  have s1: "snd (send_with_unity_instance ?e1 ''editor-1'' ''manage_prefabs'' [(''action'', PStr ''open_stage'')])
      = Inl (PyException ''Connection reset'')"
    by (simp add: spec_services_def fail_with_def)
  have w1: "result (manage_prefabs ?e1 ''session-1'' ?a) =
     Inr (PDict [(''success'', PBool False),
                 (''message'', PStr ''Python error managing prefabs: Connection reset'')])"
    using manage_prefabs_exception_boundary [of ?e1 "''session-1''" _ ?a "''editor-1''"] r1 b1 s1
    by simp
  have r2: "get_unity_instance_from_context ?e2 ''session-1'' = Inr ''editor-1''"
    by (simp add: spec_services_def instance_resolver_def one_session_def)
  have b2: "build_params ?e2 (only_action (PStr ''get_hierarchy'')) = Inl (PyException ''invalid literal'')"
    by (simp add: build_params_def bind_exc_def spec_services_def only_action_def set_if_def
        coerce_bool_spec_def)
  have w2: "result (manage_prefabs ?e2 ''session-1'' (only_action (PStr ''get_hierarchy''))) =
     Inr (PDict [(''success'', PBool False),
                 (''message'', PStr ''Python error managing prefabs: invalid literal'')])"
    using manage_prefabs_exception_boundary
      [of ?e2 "''session-1''" _ "only_action (PStr ''get_hierarchy'')" "''editor-1''"] r2 b2
    by simp
  have r3: "get_unity_instance_from_context ?e3 ''session-1'' = Inr ''editor-1''"
    by (rule resolve_bound)
  have b3: "build_params ?e3 ?a = Inr [(''action'', PStr ''open_stage'')]"
    by (rule build_only_action)
  have s3: "snd (send_with_unity_instance ?e3 ''editor-1'' ''manage_prefabs'' [(''action'', PStr ''open_stage'')])
      = Inl (PyBaseException ''CancelledError'')"
    by (simp add: spec_services_def fail_with_def)
  have w3: "result (manage_prefabs ?e3 ''session-1'' ?a) = Inl (PyBaseException ''CancelledError'')"
    using manage_prefabs_exception_boundary [of ?e3 "''session-1''" _ ?a "''editor-1''"] r3 b3 s3
    by simp
  from w1 w2 w3 show ?thesis
    by (intro conjI)
qed

text \<open>
  C1 as stated has every error of the instance resolution converted; an error raised by
  the lookup propagates.
\<close>

theorem resolution_error_counterexample:
  "manage_prefabs
     ((spec_services one_session (reply_with (PDict [(''success'', PBool True)])) str_of)
        \<lparr>get_unity_instance_from_context := \<lambda>ctx. Inl (PyException ''session state unavailable'')\<rparr>)
     ''session-1'' (only_action (PStr ''open_stage'')) =
   \<lparr>sends = 0, dispatched = [], result = Inl (PyException ''session state unavailable'')\<rparr>"
  by (simp add: manage_prefabs_def spec_services_def)

text \<open>
  C5, as amended. The call returns a value exactly when the instance is resolved and one
  of these holds, and the value is then the one named: building the params raised an
  \<open>Exception\<close>, or the dispatch did, and the value is \<open>success: False\<close> with the
  non-empty message \<open>Python error managing prefabs: \<close> followed by the error's text;
  the reply is a mapping with truthy \<open>success\<close> and the value is the success envelope
  built from it; the reply is a mapping without truthy \<open>success\<close> and the value is that
  reply, with whatever fields it has; the reply is not a mapping and the value is
  \<open>success: False\<close> with the reply's string representation as message. The cases
  exclude one another, each being a condition on what the same calls gave.
\<close>

theorem manage_prefabs_result_origin:
  "result (manage_prefabs env ctx a) = Inr v \<longleftrightarrow>
    (\<exists>inst. get_unity_instance_from_context env ctx = Inr inst \<and>
      ((\<exists>description. build_params env a = Inl (PyException description)
          \<and> ''Python error managing prefabs: '' @ description \<noteq> []
          \<and> v = PDict [(''success'', PBool False),
                        (''message'', PStr (''Python error managing prefabs: '' @ description))])
       \<or> (\<exists>params. build_params env a = Inr params \<and>
            ((\<exists>description.
                snd (send_with_unity_instance env inst ''manage_prefabs'' params) =
                  Inl (PyException description)
              \<and> ''Python error managing prefabs: '' @ description \<noteq> []
              \<and> v = PDict [(''success'', PBool False),
                            (''message'', PStr (''Python error managing prefabs: '' @ description))])
             \<or> (\<exists>response.
                  snd (send_with_unity_instance env inst ''manage_prefabs'' params) = Inr response \<and>
                  ((\<exists>d. response = PDict d \<and> truthy (dict_get d ''success'' PNone)
                      \<and> v = PDict [(''success'', PBool True),
                                    (''message'', dict_get d ''message'' (PStr ''Prefab operation successful.'')),
                                    (''data'', dict_get d ''data'' PNone)])
                   \<or> (\<exists>d. response = PDict d \<and> \<not> truthy (dict_get d ''success'' PNone)
                         \<and> v = response)
                   \<or> (\<not> isinstance_dict response
                         \<and> v = PDict [(''success'', PBool False),
                                       (''message'', PStr (py_str env response))])))))))"
proof (cases "get_unity_instance_from_context env ctx")
  case (Inl exc)
  then show ?thesis by (simp add: result_cases)
next
  case resolved: (Inr inst)
  show ?thesis
  proof (cases "build_params env a")
    case build_raises: (Inl exc)
    show ?thesis
    proof (cases exc)
      case (PyException description)
      with resolved build_raises show ?thesis
        by (auto simp add: result_cases except_Exception_simps)
    next
      case (PyBaseException description)
      with resolved build_raises show ?thesis
        by (simp add: result_cases except_Exception_simps)
    qed
  next
    case built: (Inr params)
    show ?thesis
    proof (cases "snd (send_with_unity_instance env inst ''manage_prefabs'' params)")
      case send_raises: (Inl exc)
      show ?thesis
      proof (cases exc)
        case (PyException description)
        with resolved built send_raises show ?thesis
          by (auto simp add: result_cases except_Exception_simps)
      next
        case (PyBaseException description)
        with resolved built send_raises show ?thesis
          by (simp add: result_cases except_Exception_simps)
      qed
    next
      case replied: (Inr response)
      show ?thesis
      proof (cases "isinstance_dict response")
        case False
        with resolved built replied show ?thesis
          by (auto simp add: result_cases except_Exception_simps normalize_not_dict)
      next
        case True
        then obtain d where d: "response = PDict d"
          by (cases response) simp_all
        show ?thesis
        proof (cases "truthy (dict_get d ''success'' PNone)")
          case True
          with resolved built replied d show ?thesis
            by (auto simp add: result_cases except_Exception_simps normalize_success)
        next
          case False
          with resolved built replied d show ?thesis
            by (auto simp add: result_cases except_Exception_simps normalize_passthrough)
        qed
      qed
    qed
  qed
qed

theorem manage_prefabs_result_origin_witness:
  "result (manage_prefabs (spec_services one_session (fail_with (PyException ''Connection reset'')) str_of)
      ''session-1'' (only_action (PStr ''save_open_stage''))) =
     Inr (PDict [(''success'', PBool False),
                 (''message'', PStr ''Python error managing prefabs: Connection reset'')])
   \<and> result (manage_prefabs
        (spec_services one_session
          (reply_with (PDict [(''success'', PBool False), (''code'', PInt 404)])) str_of)
        ''session-1'' (only_action (PStr ''save_open_stage''))) =
     Inr (PDict [(''success'', PBool False), (''code'', PInt 404)])"
proof -
  let ?a = "only_action (PStr ''save_open_stage'')"
  let ?params = "[(''action'', PStr ''save_open_stage'')]"
  let ?e1 = "spec_services one_session (fail_with (PyException ''Connection reset'')) str_of"
  let ?v1 = "PDict [(''success'', PBool False),
                 (''message'', PStr ''Python error managing prefabs: Connection reset'')]"
  have r1: "get_unity_instance_from_context ?e1 ''session-1'' = Inr ''editor-1''"
    by (rule resolve_bound)
  have b1: "build_params ?e1 ?a = Inr ?params"
    by (rule build_only_action)
  have s1: "snd (send_with_unity_instance ?e1 ''editor-1'' ''manage_prefabs'' ?params)
      = Inl (PyException ''Connection reset'')"
    by (simp add: spec_services_def fail_with_def)
  have w1: "result (manage_prefabs ?e1 ''session-1'' ?a) = Inr ?v1"
    using manage_prefabs_result_origin [of ?e1 "''session-1''" ?a ?v1] r1 b1 s1
    by simp
  let ?reply = "PDict [(''success'', PBool False), (''code'', PInt 404)]"
  let ?e2 = "spec_services one_session (reply_with ?reply) str_of"
  have r2: "get_unity_instance_from_context ?e2 ''session-1'' = Inr ''editor-1''"
    by (rule resolve_bound)
  have b2: "build_params ?e2 ?a = Inr ?params"
    by (rule build_only_action)
  have s2: "snd (send_with_unity_instance ?e2 ''editor-1'' ''manage_prefabs'' ?params) = Inr ?reply"
    by (simp add: send_reply_with)
  have w2: "result (manage_prefabs ?e2 ''session-1'' ?a) = Inr ?reply"
    using manage_prefabs_result_origin [of ?e2 "''session-1''" ?a ?reply] r2 b2 s2
    by (simp add: dict_get_def)
  from w1 w2 show ?thesis
    by (rule conjI)
qed

text \<open>
  C5 as stated has every result carry \<open>success\<close> and a non-empty message; a reply
  mapping with neither is returned unchanged.
\<close>

theorem missing_message_counterexample:
  "result (manage_prefabs
      (spec_services one_session (reply_with (PDict [(''error'', PStr ''No prefab stage is open'')])) str_of)
      ''session-1'' (only_action (PStr ''close_stage''))) =
     Inr (PDict [(''error'', PStr ''No prefab stage is open'')])
   \<and> map_of [(''error'', PStr ''No prefab stage is open'')] ''message'' = None
   \<and> map_of [(''error'', PStr ''No prefab stage is open'')] ''success'' = None"
proof -
  let ?env = "spec_services one_session
      (reply_with (PDict [(''error'', PStr ''No prefab stage is open'')])) str_of"
  have r: "get_unity_instance_from_context ?env ''session-1'' = Inr ''editor-1''"
    by (rule resolve_bound)
  have b: "build_params ?env (only_action (PStr ''close_stage'')) = Inr [(''action'', PStr ''close_stage'')]"
    by (rule build_only_action)
  have s: "send_with_unity_instance ?env ''editor-1'' ''manage_prefabs'' [(''action'', PStr ''close_stage'')]
      = (1, Inr (PDict [(''error'', PStr ''No prefab stage is open'')]))"
    by (rule send_reply_with)
  have "result (manage_prefabs ?env ''session-1'' (only_action (PStr ''close_stage''))) =
      Inr (PDict [(''error'', PStr ''No prefab stage is open'')])"
    using manage_prefabs_reply [OF r b s]
    by (simp add: normalize_response_def dict_get_def)
  then show ?thesis by simp
qed

end
